theory Spec2Isabelle
  imports Complex_Main "HOL-Library.Sublist"
begin

section \<open>Python values\<close>

text \<open>
  The physics model of the PET protocol optimizer (\<^verbatim>\<open>physics_module.py\<close>) and its
  k-factor store (\<^verbatim>\<open>data_persistence.py\<close>) are embedded function by function.

  Python floats are modelled by \<^typ>\<open>real\<close>: arithmetic is exact, there is no NaN, no
  infinity and no overflow. Where the source yields \<^verbatim>\<open>np.nan\<close> on purpose the model
  yields \<open>None\<close>. Strings are lists of 8-bit characters, so case conversion is the
  ASCII one. Every place where the source can raise is a branch returning \<open>Inl\<close>.
\<close>

datatype py_error =
    ZeroDivisionError
  | KeyError
  | ComplexResult
  | OSError
  | JSONDecodeError
  | TypeError
  | AttributeError

text \<open>\<^verbatim>\<open>d.get(k, default)\<close> and \<^verbatim>\<open>d[k]\<close> on a dict written as a list of items.\<close>

definition dict_get :: "('k \<times> 'v) list \<Rightarrow> 'k \<Rightarrow> 'v \<Rightarrow> 'v" where
  "dict_get d k dflt = (case map_of d k of None \<Rightarrow> dflt | Some v \<Rightarrow> v)"

definition dict_index :: "('k \<times> 'v) list \<Rightarrow> 'k \<Rightarrow> py_error + 'v" where
  "dict_index d k = (case map_of d k of None \<Rightarrow> Inl KeyError | Some v \<Rightarrow> Inr v)"

text \<open>\<^verbatim>\<open>str.upper()\<close> and \<^verbatim>\<open>str.lower()\<close> on ASCII text.\<close>

definition char_upper :: "char \<Rightarrow> char" where
  "char_upper c =
     (let n = (of_char c :: nat) in if 97 \<le> n \<and> n \<le> 122 then char_of (n - 32) else c)"

definition char_lower :: "char \<Rightarrow> char" where
  "char_lower c =
     (let n = (of_char c :: nat) in if 65 \<le> n \<and> n \<le> 90 then char_of (n + 32) else c)"

definition upper :: "string \<Rightarrow> string" where
  "upper s = map char_upper s"

definition lower :: "string \<Rightarrow> string" where
  "lower s = map char_lower s"

text \<open>\<^verbatim>\<open>needle in hay\<close> on strings: some suffix of \<open>hay\<close> starts with \<open>needle\<close>.\<close>

fun str_contains :: "string \<Rightarrow> string \<Rightarrow> bool" where
  "str_contains needle [] = (needle = [])"
| "str_contains needle (c # cs) = (prefix needle (c # cs) \<or> str_contains needle cs)"

text \<open>
  \<^verbatim>\<open>round(v, 1)\<close>: the nearest multiple of one tenth, a tie going to the even
  multiple. On reals the tie is decided on the exact value of \<open>v\<close>.
\<close>

definition round_half_even :: "real \<Rightarrow> int" where
  "round_half_even x =
     (let f = \<lfloor>x\<rfloor>; d = x - of_int f
      in if d < 1 / 2 then f else if 1 / 2 < d then f + 1 else if even f then f else f + 1)"

definition py_round1 :: "real \<Rightarrow> real" where
  "py_round1 v = of_int (round_half_even (v * 10)) / 10"

section \<open>Constants of the physics model\<close>

definition AXFOV_MM :: real where
  "AXFOV_MM = 263.0"

definition HALF_LIFE_MIN :: "(string \<times> real) list" where
  "HALF_LIFE_MIN = [(''FDG'', 109.77), (''PSMA'', 109.77)]"

definition SYSTEM_SENSITIVITY :: "(string \<times> real) list" where
  "SYSTEM_SENSITIVITY = [(''FDG'', 9.1), (''PSMA'', 9.1)]"

definition PEDIATRIC_WEIGHT_RANGES :: "(string \<times> real \<times> real) list" where
  "PEDIATRIC_WEIGHT_RANGES =
     [(''neonate'', (0.5, 5.0)),
      (''infant'', (5.0, 15.0)),
      (''toddler'', (15.0, 25.0)),
      (''child'', (25.0, 50.0)),
      (''adolescent'', (50.0, 100.0))]"

definition PEDIATRIC_DOSE_FACTORS :: "(string \<times> real) list" where
  "PEDIATRIC_DOSE_FACTORS =
     [(''neonate'', 0.02),
      (''infant'', 0.05),
      (''toddler'', 0.10),
      (''child'', 0.15),
      (''adolescent'', 0.75)]"

definition PEDIATRIC_SCAN_TIME_LIMITS :: "(string \<times> real) list" where
  "PEDIATRIC_SCAN_TIME_LIMITS =
     [(''neonate'', 30.0),
      (''infant'', 60.0),
      (''toddler'', 120.0),
      (''child'', 180.0),
      (''adolescent'', 240.0)]"

definition PEDIATRIC_LBM_FACTORS :: "(string \<times> real) list" where
  "PEDIATRIC_LBM_FACTORS =
     [(''neonate'', 0.85),
      (''infant'', 0.80),
      (''toddler'', 0.75),
      (''child'', 0.70),
      (''adolescent'', 0.65)]"

section \<open>Tracer, sensitivity and decay\<close>

definition tracer_key :: "string \<Rightarrow> string" where
  "tracer_key name = (if str_contains ''PSMA'' (upper name) then ''PSMA'' else ''FDG'')"

definition get_system_sensitivity :: "string \<Rightarrow> real" where
  "get_system_sensitivity tracer =
     (let base = dict_get SYSTEM_SENSITIVITY (tracer_key tracer) 9.1 in base * 1000)"

text \<open>
  A \<^verbatim>\<open>datetime\<close> is a count of microseconds; \<^verbatim>\<open>(b - a).total_seconds()\<close> is the
  difference divided by one million.
\<close>

definition total_seconds :: "int \<Rightarrow> real" where
  "total_seconds delta = of_int delta / 1000000"

definition effective_activity_mbq ::
  "real \<Rightarrow> int \<Rightarrow> int \<Rightarrow> string \<Rightarrow> real \<Rightarrow> py_error + real" where
  "effective_activity_mbq injected_mbq inj_time scan_start tracer residual_mbq =
     (case dict_index HALF_LIFE_MIN (tracer_key tracer) of
        Inl e \<Rightarrow> Inl e
      | Inr half_life \<Rightarrow>
          (let lam = ln 2 / half_life;
               dt_min = max (total_seconds (scan_start - inj_time) / 60.0) 0.0;
               A0 = max (injected_mbq - residual_mbq) 0.0
           in Inr (A0 * exp (- lam * dt_min))))"

section \<open>Pediatric tables\<close>

text \<open>The loop over the items of the weight table: the first range that holds the weight.\<close>

fun first_group :: "(string \<times> real \<times> real) list \<Rightarrow> real \<Rightarrow> string option" where
  "first_group [] weight_kg = None"
| "first_group ((grp, (min_w, max_w)) # rest) weight_kg =
     (if min_w \<le> weight_kg \<and> weight_kg \<le> max_w then Some grp
      else first_group rest weight_kg)"

definition get_pediatric_age_group :: "real \<Rightarrow> string option" where
  "get_pediatric_age_group weight_kg = first_group PEDIATRIC_WEIGHT_RANGES weight_kg"

definition is_pediatric_patient :: "real \<Rightarrow> bool" where
  "is_pediatric_patient weight_kg = (weight_kg < 35.0)"

definition get_pediatric_dose_factor :: "real \<Rightarrow> real" where
  "get_pediatric_dose_factor weight_kg =
     (case get_pediatric_age_group weight_kg of
        Some age_group \<Rightarrow> dict_get PEDIATRIC_DOSE_FACTORS age_group 0.15
      | None \<Rightarrow> 1.0)"

definition get_pediatric_scan_time_limit :: "real \<Rightarrow> real" where
  "get_pediatric_scan_time_limit weight_kg =
     (case get_pediatric_age_group weight_kg of
        Some age_group \<Rightarrow> dict_get PEDIATRIC_SCAN_TIME_LIMITS age_group 180.0
      | None \<Rightarrow> 180.0)"

text \<open>
  \<^verbatim>\<open>gender or "male"\<close> replaces \<^verbatim>\<open>None\<close> and the empty string; the division by the
  height raises on a zero height, in the adult branch only.
\<close>

definition calculate_lbm :: "real \<Rightarrow> real \<Rightarrow> string option \<Rightarrow> py_error + real" where
  "calculate_lbm weight_kg height_cm gender =
     (if is_pediatric_patient weight_kg then
        (case get_pediatric_age_group weight_kg of
           Some age_group \<Rightarrow>
             (let lbm_factor = dict_get PEDIATRIC_LBM_FACTORS age_group 0.70
              in Inr (weight_kg * lbm_factor))
         | None \<Rightarrow>
             (if weight_kg < 10 then Inr (weight_kg * 0.85)
              else if weight_kg < 30 then Inr (weight_kg * 0.80)
              else Inr (weight_kg * 0.75)))
      else
        (let g = lower (case gender of None \<Rightarrow> ''male'' | Some s \<Rightarrow> if s = [] then ''male'' else s)
         in if height_cm = 0 then Inl ZeroDivisionError
            else
              (let lbm = (if g \<in> set [''male'', ''masculino'', ''hombre'']
                          then 1.10 * weight_kg - 128 * (weight_kg / height_cm)\<^sup>2
                          else 1.07 * weight_kg - 148 * (weight_kg / height_cm)\<^sup>2)
               in Inr (max lbm 30.0))))"

section \<open>BMI multiplier, NEC and SNR\<close>

text \<open>
  \<^verbatim>\<open>(bmi_eff / bmi_ref) ** exp\<close> with a fractional exponent: the quotient raises on a
  zero reference, and a negative base gives a complex number, which is no real result.
\<close>

definition bmi_multiplier :: "real \<Rightarrow> string \<Rightarrow> real \<Rightarrow> real \<Rightarrow> py_error + real" where
  "bmi_multiplier bmi tracer bmi_ref bmi_cap =
     (let tkey = tracer_key tracer;
          expn = (if tkey = ''FDG'' then 0.6 else 0.4);
          bmi_eff = min bmi bmi_cap
      in if bmi_eff \<le> bmi_ref then Inr 1.0
         else if bmi_ref = 0 then Inl ZeroDivisionError
         else if bmi_eff / bmi_ref < 0 then Inl ComplexResult
         else Inr ((bmi_eff / bmi_ref) powr expn))"

definition calculate_nec :: "real \<Rightarrow> real \<Rightarrow> string \<Rightarrow> real" where
  "calculate_nec activity_mbq dwell_time_s tracer =
     (let sens = get_system_sensitivity tracer in activity_mbq * dwell_time_s * sens)"

definition calculate_snr_from_nec :: "real \<Rightarrow> real \<Rightarrow> real" where
  "calculate_snr_from_nec nec recon_gain = sqrt (max nec 0.000000001) * recon_gain"

section \<open>Protocol solvers\<close>

text \<open>
  Each solver returns the tuple of the source. The only division whose divisor can be
  zero is the one by \<^verbatim>\<open>max(k, 1e-9) * recon_gain\<close>, in the standard and the low-dose
  solver. \<^verbatim>\<open>cov_pred\<close> is \<open>None\<close> where the source gives \<^verbatim>\<open>np.nan\<close>.
\<close>

definition solve_standard ::
  "real \<Rightarrow> real \<Rightarrow> real \<Rightarrow> real \<Rightarrow> real \<Rightarrow> real \<Rightarrow> string \<Rightarrow> bool \<Rightarrow> real option \<Rightarrow> real option
   \<Rightarrow> py_error + (real \<times> real \<times> real \<times> real \<times> real option \<times> bool)" where
  "solve_standard A_eff_mbq k recon_gain snr_target_case mult_bmi scan_range_mm
       tracer is_pediatric weight_kg height_cm =
     (if max k 0.000000001 * recon_gain = 0 then Inl ZeroDivisionError
      else
        (let nec_req = (snr_target_case / (max k 0.000000001 * recon_gain))\<^sup>2;
             sens = get_system_sensitivity tracer;
             t_bed = nec_req / max (A_eff_mbq * sens) 0.000001 * mult_bmi;
             t_bed_lim = (case (is_pediatric, weight_kg) of
                            (True, Some w) \<Rightarrow>
                              (let max_scan_time = get_pediatric_scan_time_limit w
                               in min t_bed max_scan_time)
                          | _ \<Rightarrow> t_bed);
             v_raw = AXFOV_MM / max t_bed_lim 0.000001;
             v_clamped = max 0.5 (min v_raw 50.0);
             v = py_round1 v_clamped;
             t_bed_r = AXFOV_MM / v;
             nec = calculate_nec A_eff_mbq t_bed_r tracer;
             snr_pred = k * calculate_snr_from_nec nec recon_gain;
             cov_pred = (if snr_pred > 0 then Some (1.0 / snr_pred) else None)
         in Inr (v, t_bed_r, (scan_range_mm / v) / 60.0, snr_pred, cov_pred,
                 \<bar>snr_pred - snr_target_case\<bar> \<le> 0.3)))"


definition solve_fast ::
  "real \<Rightarrow> real \<Rightarrow> real \<Rightarrow> real \<Rightarrow> real \<Rightarrow> real \<Rightarrow> string \<Rightarrow> bool \<Rightarrow> real option \<Rightarrow> real option
   \<Rightarrow> real \<times> real \<times> real \<times> real \<times> real option" where
  "solve_fast A_eff_mbq k recon_gain mult_bmi fast_t_ref_s scan_range_mm
       tracer is_pediatric weight_kg height_cm =
     (let t_bed_fast = fast_t_ref_s * mult_bmi;
          t_bed_lim = (case (is_pediatric, weight_kg) of
                         (True, Some w) \<Rightarrow>
                           (let reduction_factor = 0.5 + 0.3 * (get_pediatric_dose_factor w / 0.15);
                                t_red = t_bed_fast * reduction_factor;
                                max_scan_time = get_pediatric_scan_time_limit w * 0.5
                            in min t_red max_scan_time)
                       | _ \<Rightarrow> t_bed_fast);
          v_raw = AXFOV_MM / max t_bed_lim 0.000001;
          v_clamped = max 0.5 (min v_raw 50.0);
          v = py_round1 v_clamped;
          t_bed_r = AXFOV_MM / v;
          nec = calculate_nec A_eff_mbq t_bed_r tracer;
          snr_pred = k * calculate_snr_from_nec nec recon_gain;
          cov_pred = (if snr_pred > 0 then Some (1.0 / snr_pred) else None)
      in (v, t_bed_r, (scan_range_mm / v) / 60.0, snr_pred, cov_pred))"

section \<open>The k-factor store\<close>

text \<open>
  The backing file is a piece of state: its text when it exists, and whether the
  existence check, reading or writing fails. \<^verbatim>\<open>Path.exists()\<close> answers for a missing
  file but passes on any other error of the file system (a name that is too long, a
  directory that may not be searched). A write that fails leaves the file as it was.
  \<^verbatim>\<open>json.loads\<close> and \<^verbatim>\<open>json.dumps\<close> are library functions and are parameters of the
  operations that call them; \<^verbatim>\<open>json.loads\<close> returns any JSON value, an object being
  the list of its items, each key once.
\<close>

datatype json =
    JNull
  | JBool bool
  | JNumber real
  | JString string
  | JArray "json list"
  | JObject "(string \<times> json) list"

record store_file =
  content :: "string option"
  exists_fails :: bool
  read_fails :: bool
  write_fails :: bool

definition exists_file :: "store_file \<Rightarrow> py_error + bool" where
  "exists_file f = (if exists_fails f then Inl OSError else Inr (content f \<noteq> None))"

definition read_text :: "store_file \<Rightarrow> py_error + string" where
  "read_text f =
     (case content f of
        None \<Rightarrow> Inl OSError
      | Some text \<Rightarrow> if read_fails f then Inl OSError else Inr text)"

definition write_text :: "store_file \<Rightarrow> string \<Rightarrow> (py_error + unit) \<times> store_file" where
  "write_text f text =
     (if write_fails f then (Inl OSError, f) else (Inr (), f\<lparr>content := Some text\<rparr>))"

text \<open>
  \<^verbatim>\<open>try: ... except Exception: ...\<close>: every error of \<^typ>\<open>py_error\<close> is an
  \<^verbatim>\<open>Exception\<close>, so the handler's value replaces any of them.
\<close>

definition try_except :: "py_error + 'a \<Rightarrow> 'a \<Rightarrow> py_error + 'a" where
  "try_except body handler = (case body of Inl e \<Rightarrow> Inr handler | Inr x \<Rightarrow> Inr x)"

text \<open>
  In \<open>load_store\<close> the existence check stands before the \<^verbatim>\<open>try\<close>, so an error of the
  check is not handled; the handler covers reading and parsing only.
\<close>

definition load_store :: "(string \<Rightarrow> py_error + json) \<Rightarrow> store_file \<Rightarrow> py_error + json" where
  "load_store json_loads f =
     (case exists_file f of
        Inl e \<Rightarrow> Inl e
      | Inr True \<Rightarrow>
          try_except
            (case read_text f of Inl e \<Rightarrow> Inl e | Inr text \<Rightarrow> json_loads text)
            (JObject [])
      | Inr False \<Rightarrow> Inr (JObject []))"

text \<open>A store in memory: a dict from keys to lists of floats.\<close>

type_synonym store = "string \<rightharpoonup> real list"

definition save_store ::
  "(store \<Rightarrow> py_error + string) \<Rightarrow> store \<Rightarrow> store_file \<Rightarrow> (py_error + unit) \<times> store_file" where
  "save_store json_dumps st f =
     (let body = (case json_dumps st of
                    Inl e \<Rightarrow> (Inl e, f)
                  | Inr text \<Rightarrow> write_text f text)
      in case body of (r, f') \<Rightarrow> (try_except r (), f'))"

definition store_key :: "string \<Rightarrow> string \<Rightarrow> string" where
  "store_key tracer recon_profile = tracer @ ''_'' @ recon_profile"

definition add_k_measurement ::
  "(store \<Rightarrow> py_error + string) \<Rightarrow> store \<Rightarrow> string \<Rightarrow> string \<Rightarrow> real \<Rightarrow> store_file
   \<Rightarrow> (py_error + store) \<times> store_file" where
  "add_k_measurement json_dumps st tracer recon_profile k_value f =
     (let key = store_key tracer recon_profile;
          arr = (case st key of None \<Rightarrow> [] | Some a \<Rightarrow> a);
          arr' = arr @ [k_value];
          st' = st(key \<mapsto> arr')
      in case save_store json_dumps st' f of
           (Inl e, f') \<Rightarrow> (Inl e, f')
         | (Inr u, f') \<Rightarrow> (Inr st', f'))"

text \<open>
  \<^verbatim>\<open>np.median\<close> and \<^verbatim>\<open>np.percentile\<close> (linear interpolation, the default) on a
  non-empty array: both work on the sorted values. The caller never passes an empty
  array.
\<close>

definition np_median :: "real list \<Rightarrow> real" where
  "np_median a =
     (let s = sort a; n = length s
      in if even n then (s ! (n div 2 - 1) + s ! (n div 2)) / 2 else s ! (n div 2))"

definition np_percentile :: "real list \<Rightarrow> real \<Rightarrow> real" where
  "np_percentile a q =
     (let s = sort a; n = length s;
          h = q / 100 * real (n - 1);
          lo = nat \<lfloor>h\<rfloor>;
          hi = min (lo + 1) (n - 1);
          g = h - real lo
      in s ! lo + (s ! hi - s ! lo) * g)"

definition summarize_k :: "store \<Rightarrow> string \<Rightarrow> string \<Rightarrow> (real \<times> real \<times> real \<times> nat) option" where
  "summarize_k st tracer recon_profile =
     (let key = store_key tracer recon_profile;
          vals = (case st key of None \<Rightarrow> [] | Some a \<Rightarrow> a)
      in if vals = [] then None
         else Some (np_median vals, np_percentile vals 25, np_percentile vals 75, length vals))"

text \<open>
  \<open>get_site_k_summary\<close> hands the value that \<open>load_store\<close> returns to
  \<^verbatim>\<open>summarize_k\<close> as it is. On such a value \<^verbatim>\<open>store.get\<close> exists for an object only;
  \<^verbatim>\<open>not vals\<close> is Python's truth test; and where the entry under the key is anything
  but a list of numbers the outcome is numpy's, a parameter here. On an object whose
  entry is a list of numbers this is \<open>summarize_k\<close>.
\<close>

fun truthy :: "json \<Rightarrow> bool" where
  "truthy JNull = False"
| "truthy (JBool b) = b"
| "truthy (JNumber x) = (x \<noteq> 0)"
| "truthy (JString s) = (s \<noteq> [])"
| "truthy (JArray xs) = (xs \<noteq> [])"
| "truthy (JObject items) = (items \<noteq> [])"

fun number_list :: "json list \<Rightarrow> real list option" where
  "number_list [] = Some []"
| "number_list (JNumber x # rest) =
     (case number_list rest of None \<Rightarrow> None | Some xs \<Rightarrow> Some (x # xs))"
| "number_list (other # rest) = None"

definition summarize_k_loaded ::
  "(json \<Rightarrow> py_error + (real \<times> real \<times> real \<times> nat)) \<Rightarrow> json \<Rightarrow> string \<Rightarrow> string
   \<Rightarrow> py_error + (real \<times> real \<times> real \<times> nat) option" where
  "summarize_k_loaded numpy_other data tracer recon_profile =
     (case data of
        JObject items \<Rightarrow>
          (let key = store_key tracer recon_profile;
               vals = dict_get items key (JArray [])
           in if \<not> truthy vals then Inr None
              else
                (case (case vals of JArray xs \<Rightarrow> number_list xs | _ \<Rightarrow> None) of
                   Some a \<Rightarrow>
                     Inr (Some (np_median a, np_percentile a 25, np_percentile a 75, length a))
                 | None \<Rightarrow>
                     (case numpy_other vals of Inl e \<Rightarrow> Inl e | Inr r \<Rightarrow> Inr (Some r))))
      | _ \<Rightarrow> Inl AttributeError)"


section \<open>Facts about the helpers\<close>

subsection \<open>Rounding to one decimal\<close>

lemma round_half_even_of_int: "round_half_even (of_int n) = n"
  by (simp add: round_half_even_def)

lemma round_half_even_lower: "\<lfloor>x\<rfloor> \<le> round_half_even x"
  by (simp add: round_half_even_def Let_def)

lemma round_half_even_upper: "round_half_even x \<le> \<lfloor>x\<rfloor> + 1"
  by (simp add: round_half_even_def Let_def)

lemma round_half_even_mono:
  assumes "x \<le> y"
  shows "round_half_even x \<le> round_half_even y"
proof (cases "\<lfloor>x\<rfloor> = \<lfloor>y\<rfloor>")
  case True
  with assms have "x - of_int \<lfloor>x\<rfloor> \<le> y - of_int \<lfloor>y\<rfloor>" by simp
  with True show ?thesis
    by (simp add: round_half_even_def Let_def)
next
  case False
  from assms have "\<lfloor>x\<rfloor> \<le> \<lfloor>y\<rfloor>" by (rule floor_mono)
  with False have "\<lfloor>x\<rfloor> + 1 \<le> \<lfloor>y\<rfloor>" by simp
  with round_half_even_upper[of x] round_half_even_lower[of y] show ?thesis
    by linarith
qed

lemma py_round1_mono: "x \<le> y \<Longrightarrow> py_round1 x \<le> py_round1 y"
  by (simp add: py_round1_def round_half_even_mono divide_right_mono)

lemma py_round1_tenths: "py_round1 (of_int n / 10) = of_int n / 10"
  by (simp add: py_round1_def round_half_even_of_int)

lemma py_round1_clamp_bounds:
  "1 / 2 \<le> py_round1 (max 0.5 (min x 50.0)) \<and> py_round1 (max 0.5 (min x 50.0)) \<le> 50"
proof -
  let ?c = "max 0.5 (min x 50.0) :: real"
  have lo: "of_int 5 / 10 \<le> ?c" and hi: "?c \<le> of_int 500 / 10" by simp_all
  from py_round1_mono[OF lo] py_round1_mono[OF hi]
  show ?thesis unfolding py_round1_tenths by simp
qed


subsection \<open>Strings, tables and lean body mass\<close>

lemma str_contains_sublist: "str_contains needle hay = sublist needle hay"
  by (induction hay) (simp_all add: sublist_Cons_right)

lemma upper_sublist:
  "sublist x (upper label) = (\<exists>p m s. label = p @ m @ s \<and> upper m = x)"
proof
  assume "sublist x (upper label)"
  then obtain ps ss where h: "map char_upper label = ps @ (x @ ss)"
    unfolding sublist_def upper_def by blast
  from map_eq_append_conv[THEN iffD1, OF h]
  obtain p r where l1: "label = p @ r" and r: "x @ ss = map char_upper r"
    by blast
  from map_eq_append_conv[THEN iffD1, OF r[symmetric]]
  obtain m s where "r = m @ s" and "x = map char_upper m"
    by blast
  with l1 show "\<exists>p m s. label = p @ m @ s \<and> upper m = x"
    unfolding upper_def by blast
next
  assume "\<exists>p m s. label = p @ m @ s \<and> upper m = x"
  then obtain p m s where "label = p @ m @ s" and "upper m = x" by blast
  then have "upper label = upper p @ x @ upper s"
    by (simp add: upper_def)
  then show "sublist x (upper label)"
    unfolding sublist_def by blast
qed

lemma age_group_cases:
  "get_pediatric_age_group w =
     (if 0.5 \<le> w \<and> w \<le> 5 then Some ''neonate''
      else if 5 < w \<and> w \<le> 15 then Some ''infant''
      else if 15 < w \<and> w \<le> 25 then Some ''toddler''
      else if 25 < w \<and> w \<le> 50 then Some ''child''
      else if 50 < w \<and> w \<le> 100 then Some ''adolescent''
      else None)"
  by (simp add: get_pediatric_age_group_def PEDIATRIC_WEIGHT_RANGES_def)

lemma tracer_key_cases: "tracer_key t = ''FDG'' \<or> tracer_key t = ''PSMA''"
  by (simp add: tracer_key_def)

lemma sensitivity_value: "get_system_sensitivity t = 9100"
  using tracer_key_cases[of t]
  by (auto simp add: get_system_sensitivity_def SYSTEM_SENSITIVITY_def dict_get_def)

lemma lbm_pediatric:
  assumes "w < 35"
  shows "calculate_lbm w h g \<in> {Inr (w * 0.85), Inr (w * 0.80), Inr (w * 0.75), Inr (w * 0.70)}"
proof -
  consider "w < 0.5" | "0.5 \<le> w \<and> w \<le> 5" | "5 < w \<and> w \<le> 15" | "15 < w \<and> w \<le> 25"
    | "25 < w \<and> w < 35"
    using assms by linarith
  then show ?thesis
  proof cases
    case 1
    then show ?thesis
      by (simp add: calculate_lbm_def is_pediatric_patient_def age_group_cases)
  next
    case 2
    then show ?thesis
      by (simp add: calculate_lbm_def is_pediatric_patient_def age_group_cases
          dict_get_def PEDIATRIC_LBM_FACTORS_def)
  next
    case 3
    then show ?thesis
      by (simp add: calculate_lbm_def is_pediatric_patient_def age_group_cases
          dict_get_def PEDIATRIC_LBM_FACTORS_def)
  next
    case 4
    then show ?thesis
      by (simp add: calculate_lbm_def is_pediatric_patient_def age_group_cases
          dict_get_def PEDIATRIC_LBM_FACTORS_def)
  next
    case 5
    then show ?thesis
      by (simp add: calculate_lbm_def is_pediatric_patient_def age_group_cases
          dict_get_def PEDIATRIC_LBM_FACTORS_def)
  qed
qed

lemma lbm_adult:
  assumes "35 \<le> w" and "h \<noteq> 0"
  shows "\<exists>l. calculate_lbm w h g = Inr l \<and> 30 \<le> l"
  using assms by (simp add: calculate_lbm_def is_pediatric_patient_def Let_def)

section \<open>Claims\<close>

subsection \<open>C1: the pediatric weight gate\<close>

text \<open>
  C1 says that a weight of exactly 35.0 kg is classified pediatric. The comparison is
  strict, so at 35.0 the patient is not pediatric.
\<close>

theorem is_pediatric_boundary_counterexample: "\<not> is_pediatric_patient 35.0"
  by (simp add: is_pediatric_patient_def)

text \<open>
  C1, as amended: \<open>is_pediatric_patient\<close> holds for every weight below 35 kg and fails
  for every weight of at least 35 kg, the boundary 35.0 included. The lean body mass
  computation branches on this test: below 35 kg it is the weight times one of the
  pediatric factors, from 35 kg on it is the adult formula floored at 30 kg. The solvers
  do not evaluate the test; they take the classification as their \<open>is_pediatric\<close>
  argument, and with that argument false the weight passed to the standard and the fast
  solver has no effect, whatever it is.
\<close>

theorem is_pediatric_patient_gate:
  "(w < 35 \<longrightarrow> is_pediatric_patient w) \<and>
   (35 \<le> w \<longrightarrow> \<not> is_pediatric_patient w) \<and>
   \<not> is_pediatric_patient 35.0 \<and>
   (is_pediatric_patient w \<longrightarrow>
      calculate_lbm w h g \<in> {Inr (w * 0.85), Inr (w * 0.80), Inr (w * 0.75), Inr (w * 0.70)}) \<and>
   (\<not> is_pediatric_patient w \<and> h \<noteq> 0 \<longrightarrow> (\<exists>l. calculate_lbm w h g = Inr l \<and> 30 \<le> l)) \<and>
   solve_standard A k rg s m r t False (Some w) ho = solve_standard A k rg s m r t False None ho \<and>
   solve_fast A k rg m ft r t False (Some w) ho = solve_fast A k rg m ft r t False None ho"
proof -
  have gate: "is_pediatric_patient w = (w < 35)"
    by (simp add: is_pediatric_patient_def)
  have std: "solve_standard A k rg s m r t False (Some w) ho
             = solve_standard A k rg s m r t False None ho"
    by (simp only: solve_standard_def prod.case bool.case option.case)
  have fast: "solve_fast A k rg m ft r t False (Some w) ho
              = solve_fast A k rg m ft r t False None ho"
    by (simp only: solve_fast_def prod.case bool.case option.case)
  have b: "\<not> is_pediatric_patient 35.0"
    by (simp add: is_pediatric_patient_def)
  have ped: "is_pediatric_patient w \<longrightarrow>
      calculate_lbm w h g \<in> {Inr (w * 0.85), Inr (w * 0.80), Inr (w * 0.75), Inr (w * 0.70)}"
    using lbm_pediatric[of w h g] unfolding gate by blast
  have adult: "\<not> is_pediatric_patient w \<and> h \<noteq> 0 \<longrightarrow> (\<exists>l. calculate_lbm w h g = Inr l \<and> 30 \<le> l)"
    using lbm_adult[of w h g] unfolding gate by auto
  from gate std fast b ped adult show ?thesis
    by (simp only: not_less simp_thms)
qed

text \<open>The gate at 20 kg and at 70 kg.\<close>

theorem is_pediatric_patient_gate_witness:
  "is_pediatric_patient 20 \<and> \<not> is_pediatric_patient 70 \<and>
   calculate_lbm 20 110 None \<in> {Inr (20 * 0.85), Inr (20 * 0.80), Inr (20 * 0.75), Inr (20 * 0.70)} \<and>
   (\<exists>l. calculate_lbm 70 170 (Some ''male'') = Inr l \<and> 30 \<le> l)"
  using is_pediatric_patient_gate[of 20 110 None]
    is_pediatric_patient_gate[of 70 170 "Some ''male''"]
  by simp

subsection \<open>The shape of the solver results\<close>

lemma gain_divisor_nonzero: "rg \<noteq> 0 \<Longrightarrow> max k 0.000000001 * rg \<noteq> (0::real)"
  by (simp add: max_def)

lemma solve_standard_shape:
  assumes "rg \<noteq> 0"
  shows "\<exists>T. solve_standard A k rg s m r t ped w ho =
           Inr (let v = py_round1 (max 0.5 (min (AXFOV_MM / max T 0.000001) 50.0));
                    d = AXFOV_MM / v;
                    sn = k * calculate_snr_from_nec (calculate_nec A d t) rg
                in (v, d, (r / v) / 60.0, sn, (if sn > 0 then Some (1.0 / sn) else None),
                    \<bar>sn - s\<bar> \<le> 0.3))"
  unfolding solve_standard_def Let_def
  by (simp only: gain_divisor_nonzero[OF assms] if_False) (rule exI, rule refl)



lemma solve_fast_pediatric:
  "solve_fast A k rg m ft r t True (Some w) ho =
     (let T = min (ft * m * (0.5 + 0.3 * (get_pediatric_dose_factor w / 0.15)))
                  (get_pediatric_scan_time_limit w * 0.5);
          v = py_round1 (max 0.5 (min (AXFOV_MM / max T 0.000001) 50.0));
          d = AXFOV_MM / v;
          sn = k * calculate_snr_from_nec (calculate_nec A d t) rg
      in (v, d, (r / v) / 60.0, sn, (if sn > 0 then Some (1.0 / sn) else None)))"
  unfolding solve_fast_def Let_def
  by (simp only: prod.case bool.case option.case)


subsection \<open>C2: the SNR round trip\<close>

lemma sqrt_828100: "sqrt 828100 = 910"
proof -
  have "sqrt ((910::real)\<^sup>2) = 910" by (simp only: real_sqrt_abs abs_numeral)
  then show ?thesis by simp
qed

lemma snr_example: "calculate_snr_from_nec (calculate_nec 9.1 10 ''FDG'') 1 = 910"
  by (simp add: sensitivity_value calculate_nec_def calculate_snr_from_nec_def sqrt_828100)

lemma standard_example:
  "solve_standard 9.1 0.01 1 9.1 1 1050 ''FDG'' False None None =
     Inr (26.3, 10, (1050 / 26.3) / 60, 9.1, Some (1 / 9.1), True)"
proof -
  have nz: "max (0.01::real) 0.000000001 * 1 \<noteq> 0" by simp
  have T: "(9.1 / (max 0.01 0.000000001 * 1))\<^sup>2 / max (9.1 * get_system_sensitivity ''FDG'') 0.000001 * 1
           = (10::real)"
    by (simp add: sensitivity_value power2_eq_square)
  have v: "py_round1 (max 0.5 (min (AXFOV_MM / max 10 0.000001) 50.0)) = 263 / 10"
    by (simp add: AXFOV_MM_def py_round1_def round_half_even_def)
  have d: "AXFOV_MM / (263 / 10) = 10" by (simp add: AXFOV_MM_def)
  have sn: "0.01 * calculate_snr_from_nec (calculate_nec 9.1 10 ''FDG'') 1 = 91 / 10"
    by (simp add: snr_example)
  show ?thesis
    unfolding solve_standard_def Let_def
    apply (simp only: nz if_False prod.case bool.case T v d sn)
    apply simp
    done
qed

text \<open>
  C2 says that \<open>calculate_nec\<close> followed by \<open>calculate_snr_from_nec\<close> on the reported
  dwell gives the reported \<open>snr_pred\<close>. With \<open>k = 0.01\<close> the solver reports an SNR of
  9.1 at a dwell of 10 s, and the two functions give 910 on that dwell.
\<close>

theorem snr_round_trip_counterexample:
  "solve_standard 9.1 0.01 1 9.1 1 1050 ''FDG'' False None None =
     Inr (26.3, 10, (1050 / 26.3) / 60, 9.1, Some (1 / 9.1), True) \<and>
   calculate_snr_from_nec (calculate_nec 9.1 10 ''FDG'') 1 = 910"
  using standard_example snr_example by (rule conjI)

text \<open>
  C2, as amended: whenever \<open>solve_standard\<close> returns, the SNR it reports is the
  calibration constant \<open>k\<close> times the value that \<open>calculate_nec\<close> followed by
  \<open>calculate_snr_from_nec\<close> gives on the reported dwell, with the same effective
  activity, tracer and reconstruction gain; the equality is exact.
\<close>

theorem snr_round_trip_with_k:
  "rg \<noteq> 0 \<longrightarrow>
     (\<exists>v d tm sn cv ok.
        solve_standard A k rg s m r t ped w ho = Inr (v, d, tm, sn, cv, ok) \<and>
        sn = k * calculate_snr_from_nec (calculate_nec A d t) rg)"
proof
  assume rg: "rg \<noteq> 0"
  from solve_standard_shape[OF rg, of A k s m r t ped w ho]
  obtain T where e: "solve_standard A k rg s m r t ped w ho =
           Inr (let v = py_round1 (max 0.5 (min (AXFOV_MM / max T 0.000001) 50.0));
                    d = AXFOV_MM / v;
                    sn = k * calculate_snr_from_nec (calculate_nec A d t) rg
                in (v, d, (r / v) / 60.0, sn, (if sn > 0 then Some (1.0 / sn) else None),
                    \<bar>sn - s\<bar> \<le> 0.3))" ..
  define v where "v = py_round1 (max 0.5 (min (AXFOV_MM / max T 0.000001) 50.0))"
  define d where "d = AXFOV_MM / v"
  have "\<exists>tm cv ok. solve_standard A k rg s m r t ped w ho =
          Inr (v, d, tm, k * calculate_snr_from_nec (calculate_nec A d t) rg, cv, ok)"
    unfolding e Let_def v_def d_def by (intro exI, rule refl)
  then show "\<exists>v d tm sn cv ok.
        solve_standard A k rg s m r t ped w ho = Inr (v, d, tm, sn, cv, ok) \<and>
        sn = k * calculate_snr_from_nec (calculate_nec A d t) rg"
    by blast
qed

text \<open>The round trip at the input of the counterexample.\<close>

theorem snr_round_trip_with_k_witness:
  "(1::real) \<noteq> 0 \<and>
   (\<exists>v d tm sn cv ok.
      solve_standard 9.1 0.01 1 9.1 1 1050 ''FDG'' False None None = Inr (v, d, tm, sn, cv, ok) \<and>
      sn = 0.01 * calculate_snr_from_nec (calculate_nec 9.1 d ''FDG'') 1)"
proof -
  have h: "(1::real) \<noteq> 0" by simp
  from snr_round_trip_with_k[where rg=1 and A="9.1" and k="0.01" and s="9.1" and m=1
      and r=1050 and t="''FDG''" and ped=False and w=None and ho=None] h
  show ?thesis by blast
qed

subsection \<open>C3: clamp, round, then back-derive the dwell\<close>



subsection \<open>C4: the fast protocol for a pediatric patient\<close>

lemma scan_time_limit_cases:
  "get_pediatric_scan_time_limit w =
     (if 0.5 \<le> w \<and> w \<le> 5 then 30
      else if 5 < w \<and> w \<le> 15 then 60
      else if 15 < w \<and> w \<le> 25 then 120
      else if 25 < w \<and> w \<le> 50 then 180
      else if 50 < w \<and> w \<le> 100 then 240
      else 180)"
  by (simp add: get_pediatric_scan_time_limit_def age_group_cases dict_get_def
      PEDIATRIC_SCAN_TIME_LIMITS_def)

lemma dose_factor_cases:
  "get_pediatric_dose_factor w =
     (if 0.5 \<le> w \<and> w \<le> 5 then 0.02
      else if 5 < w \<and> w \<le> 15 then 0.05
      else if 15 < w \<and> w \<le> 25 then 0.10
      else if 25 < w \<and> w \<le> 50 then 0.15
      else if 50 < w \<and> w \<le> 100 then 0.75
      else 1.0)"
  by (simp add: get_pediatric_dose_factor_def age_group_cases dict_get_def
      PEDIATRIC_DOSE_FACTORS_def)

lemma scan_time_limit_lower: "30 \<le> get_pediatric_scan_time_limit w"
  by (simp add: scan_time_limit_cases)

lemma clamp_round_mono:
  "x \<le> y \<Longrightarrow> py_round1 (max 0.5 (min x 50.0)) \<le> py_round1 (max 0.5 (min y 50.0))"
  by (rule py_round1_mono) (simp add: max_def min_def)

lemma back_derived_dwell_bound:
  assumes "T \<le> H" and "0.000001 \<le> H"
  shows "AXFOV_MM / py_round1 (max 0.5 (min (AXFOV_MM / max T 0.000001) 50.0))
         \<le> AXFOV_MM / py_round1 (max 0.5 (min (AXFOV_MM / H) 50.0))"
proof -
  have pos: "0 < max T 0.000001" by simp
  from assms have le: "max T 0.000001 \<le> H" by simp
  have "AXFOV_MM / H \<le> AXFOV_MM / max T 0.000001"
    using pos le by (simp add: AXFOV_MM_def frac_le)
  then have "py_round1 (max 0.5 (min (AXFOV_MM / H) 50.0))
             \<le> py_round1 (max 0.5 (min (AXFOV_MM / max T 0.000001) 50.0))"
    by (rule clamp_round_mono)
  moreover have "0 < py_round1 (max 0.5 (min (AXFOV_MM / H) 50.0))"
    using py_round1_clamp_bounds[of "AXFOV_MM / H"] by linarith
  ultimately show ?thesis
    by (simp add: AXFOV_MM_def frac_le)
qed

lemma round1_toddler: "py_round1 (max 0.5 (min (AXFOV_MM / 60) 50.0)) = 4.4"
  by (simp add: AXFOV_MM_def py_round1_def round_half_even_def)

lemma round1_child: "py_round1 (max 0.5 (min (AXFOV_MM / max 90 0.000001) 50.0)) = 2.9"
  by (simp add: AXFOV_MM_def py_round1_def round_half_even_def)

lemma solve_fast_pediatric_dwell:
  "fst (snd (solve_fast A k rg m ft r t True (Some w) ho)) =
     AXFOV_MM / py_round1 (max 0.5 (min (AXFOV_MM /
        max (min (ft * m * (0.5 + 0.3 * (get_pediatric_dose_factor w / 0.15)))
                 (get_pediatric_scan_time_limit w * 0.5)) 0.000001) 50.0))"
  unfolding solve_fast_pediatric Let_def by (simp only: fst_conv snd_conv)

text \<open>
  C4 says that the dwell reported for a pediatric patient is at most half the scan-time
  ceiling of the age group. At 30 kg (pediatric, group \<open>child\<close>, half ceiling 90 s) and
  a fast reference dwell of 120 s the capped dwell is 90 s, the velocity 263/90 rounds
  down to 2.9 mm/s, and the reported dwell is 263/2.9 s, which is more than 90 s.
\<close>

theorem fast_pediatric_dwell_counterexample:
  "is_pediatric_patient 30 \<and>
   get_pediatric_scan_time_limit 30 * 0.5 = 90 \<and>
   fst (snd (solve_fast 280 0.0003 1.6 1 120 1050 ''FDG'' True (Some 30) None)) = 2630 / 29 \<and>
   \<not> fst (snd (solve_fast 280 0.0003 1.6 1 120 1050 ''FDG'' True (Some 30) None))
       \<le> get_pediatric_scan_time_limit 30 * 0.5"
proof (intro conjI)
  show "is_pediatric_patient 30" by (simp add: is_pediatric_patient_def)
  show "get_pediatric_scan_time_limit 30 * 0.5 = 90" by (simp add: scan_time_limit_cases)
  have T: "min (120 * 1 * (0.5 + 0.3 * (get_pediatric_dose_factor 30 / 0.15)))
               (get_pediatric_scan_time_limit 30 * 0.5) = 90"
    by (simp add: scan_time_limit_cases dose_factor_cases)
  show "fst (snd (solve_fast 280 0.0003 1.6 1 120 1050 ''FDG'' True (Some 30) None)) = 2630 / 29"
    unfolding solve_fast_pediatric_dwell T round1_child by (simp add: AXFOV_MM_def)
  show "\<not> fst (snd (solve_fast 280 0.0003 1.6 1 120 1050 ''FDG'' True (Some 30) None))
       \<le> get_pediatric_scan_time_limit 30 * 0.5"
    unfolding solve_fast_pediatric_dwell T round1_child
    by (simp add: AXFOV_MM_def scan_time_limit_cases)
qed

text \<open>
  C4, as amended: for a pediatric call with a weight, \<open>solve_fast\<close> scales the fast
  reference dwell by the BMI multiplier and by the reduction factor
  \<open>0.5 + 0.3 * (dose_factor / 0.15)\<close> and caps that dwell at half the scan-time ceiling
  of the age group; the velocity is derived from the capped dwell, clamped and rounded,
  and the reported dwell is the axial field of view divided by the rounded velocity. The
  reported dwell is therefore at most the dwell that the half ceiling itself is rounded
  to. For a weight in the toddler group (above 15 kg and at most 25 kg, so for 20 kg)
  the dose factor is 0.10, the half ceiling is 60 s, and the reported dwell is at most
  60 s.
\<close>

theorem fast_pediatric_dwell:
  "solve_fast A k rg m ft r t True (Some w) ho =
     (let T = min (ft * m * (0.5 + 0.3 * (get_pediatric_dose_factor w / 0.15)))
                  (get_pediatric_scan_time_limit w * 0.5);
          v = py_round1 (max 0.5 (min (AXFOV_MM / max T 0.000001) 50.0));
          d = AXFOV_MM / v;
          sn = k * calculate_snr_from_nec (calculate_nec A d t) rg
      in (v, d, (r / v) / 60.0, sn, (if sn > 0 then Some (1.0 / sn) else None))) \<and>
   fst (snd (solve_fast A k rg m ft r t True (Some w) ho)) \<le>
     AXFOV_MM / py_round1 (max 0.5 (min (AXFOV_MM / (get_pediatric_scan_time_limit w * 0.5)) 50.0)) \<and>
   (15 < w \<and> w \<le> 25 \<longrightarrow>
      get_pediatric_dose_factor w = 0.10 \<and>
      get_pediatric_scan_time_limit w * 0.5 = 60 \<and>
      fst (snd (solve_fast A k rg m ft r t True (Some w) ho)) \<le> 60)"
proof (intro conjI impI)
  show "solve_fast A k rg m ft r t True (Some w) ho =
     (let T = min (ft * m * (0.5 + 0.3 * (get_pediatric_dose_factor w / 0.15)))
                  (get_pediatric_scan_time_limit w * 0.5);
          v = py_round1 (max 0.5 (min (AXFOV_MM / max T 0.000001) 50.0));
          d = AXFOV_MM / v;
          sn = k * calculate_snr_from_nec (calculate_nec A d t) rg
      in (v, d, (r / v) / 60.0, sn, (if sn > 0 then Some (1.0 / sn) else None)))"
    by (rule solve_fast_pediatric)
next
  have H: "0.000001 \<le> get_pediatric_scan_time_limit w * 0.5"
    using scan_time_limit_lower[of w] by simp
  show "fst (snd (solve_fast A k rg m ft r t True (Some w) ho)) \<le>
     AXFOV_MM / py_round1 (max 0.5 (min (AXFOV_MM / (get_pediatric_scan_time_limit w * 0.5)) 50.0))"
    unfolding solve_fast_pediatric_dwell
    by (rule back_derived_dwell_bound[OF _ H]) simp
next
  assume w: "15 < w \<and> w \<le> 25"
  then show "get_pediatric_dose_factor w = 0.10" by (simp add: dose_factor_cases)
next
  assume w: "15 < w \<and> w \<le> 25"
  then show "get_pediatric_scan_time_limit w * 0.5 = 60" by (simp add: scan_time_limit_cases)
next
  assume w: "15 < w \<and> w \<le> 25"
  then have lim: "get_pediatric_scan_time_limit w * 0.5 = 60"
    by (simp add: scan_time_limit_cases)
  have "fst (snd (solve_fast A k rg m ft r t True (Some w) ho)) \<le>
        AXFOV_MM / py_round1 (max 0.5 (min (AXFOV_MM / 60) 50.0))"
    unfolding solve_fast_pediatric_dwell lim
    by (rule back_derived_dwell_bound) simp_all
  also have "\<dots> \<le> 60" unfolding round1_toddler by (simp add: AXFOV_MM_def)
  finally show "fst (snd (solve_fast A k rg m ft r t True (Some w) ho)) \<le> 60" .
qed

text \<open>C4 at 20 kg.\<close>

theorem fast_pediatric_dwell_witness:
  "(15::real) < 20 \<and> (20::real) \<le> 25 \<and>
   get_pediatric_dose_factor 20 = 0.10 \<and>
   get_pediatric_scan_time_limit 20 * 0.5 = 60 \<and>
   fst (snd (solve_fast 280 0.0003 1.6 1 120 1050 ''FDG'' True (Some 20) None)) \<le> 60"
proof -
  have h: "(15::real) < 20 \<and> (20::real) \<le> 25" by simp
  from fast_pediatric_dwell[where w=20 and A=280 and k="0.0003" and rg="1.6" and m=1
      and ft=120 and r=1050 and t="''FDG''" and ho=None] h
  show ?thesis by blast
qed

subsection \<open>C5: decay-corrected activity\<close>

lemma half_life_lookup: "dict_index HALF_LIFE_MIN (tracer_key tr) = Inr 109.77"
  using tracer_key_cases[of tr]
  by (auto simp add: dict_index_def HALF_LIFE_MIN_def)

lemma effective_activity_value:
  "effective_activity_mbq act ti s tr res =
     Inr (max (act - res) 0 * exp (- (ln 2 / 109.77) * max (total_seconds (s - ti) / 60) 0))"
  unfolding effective_activity_mbq_def half_life_lookup Let_def by simp

lemma decay_constant_pos: "0 < ln 2 / (109.77::real)"
  by simp

lemma minutes_mono:
  "s1 \<le> s2 \<Longrightarrow> max (total_seconds (s1 - ti) / 60) 0 \<le> max (total_seconds (s2 - ti) / 60) 0"
  by (simp add: total_seconds_def max_def divide_right_mono) 

lemma minutes_strict:
  "ti \<le> s1 \<Longrightarrow> s1 < s2 \<Longrightarrow>
   max (total_seconds (s1 - ti) / 60) 0 < max (total_seconds (s2 - ti) / 60) 0"
  by (simp add: total_seconds_def max_def)

lemma minutes_clamped: "s \<le> ti \<Longrightarrow> max (total_seconds (s - ti) / 60) 0 = 0"
  by (simp add: total_seconds_def max_def divide_nonpos_pos)

text \<open>
  C5: for fixed injected activity, residual, tracer and injection time,
  \<open>effective_activity_mbq\<close> always returns; a later scan start never gives a larger
  activity, and gives a strictly smaller one when the activity left after the residual
  is positive and neither scan start precedes the injection. With the scan start at the
  injection time the result is \<open>max (injected - residual) 0\<close>, and a scan start before
  the injection gives that same value.
\<close>

theorem effective_activity_decay:
  "(\<exists>a1 a2.
      effective_activity_mbq act ti s1 tr res = Inr a1 \<and>
      effective_activity_mbq act ti s2 tr res = Inr a2 \<and>
      (s1 \<le> s2 \<longrightarrow> a2 \<le> a1) \<and>
      (ti \<le> s1 \<and> s1 < s2 \<and> res < act \<longrightarrow> a2 < a1)) \<and>
   effective_activity_mbq act ti ti tr res = Inr (max (act - res) 0) \<and>
   (s < ti \<longrightarrow> effective_activity_mbq act ti s tr res = Inr (max (act - res) 0))"
proof (intro conjI impI)
  let ?dt = "\<lambda>s. max (total_seconds (s - ti) / 60) 0"
  let ?a = "\<lambda>s. max (act - res) 0 * exp (- (ln 2 / 109.77) * ?dt s)"
  have weak: "?a s2 \<le> ?a s1" if "s1 \<le> s2"
  proof -
    from minutes_mono[OF that, of ti] decay_constant_pos
    have "- (ln 2 / 109.77) * ?dt s2 \<le> - (ln 2 / 109.77) * ?dt s1"
      by (simp add: mult_left_mono)
    then have "exp (- (ln 2 / 109.77) * ?dt s2) \<le> exp (- (ln 2 / 109.77) * ?dt s1)"
      by (simp only: exp_le_cancel_iff)
    then show ?thesis
      by (rule mult_left_mono) simp
  qed
  have strict: "?a s2 < ?a s1" if "ti \<le> s1 \<and> s1 < s2 \<and> res < act"
  proof -
    from that have "ti \<le> s1" and "s1 < s2" by simp_all
    then have lt: "?dt s1 < ?dt s2" by (rule minutes_strict)
    from that have pos: "0 < max (act - res) 0" by simp
    from lt decay_constant_pos
    have "- (ln 2 / 109.77) * ?dt s2 < - (ln 2 / 109.77) * ?dt s1"
      by (simp add: mult_strict_left_mono)
    then have "exp (- (ln 2 / 109.77) * ?dt s2) < exp (- (ln 2 / 109.77) * ?dt s1)"
      by (simp only: exp_less_cancel_iff)
    then show ?thesis
      using pos by (rule mult_strict_left_mono)
  qed
  show "\<exists>a1 a2.
      effective_activity_mbq act ti s1 tr res = Inr a1 \<and>
      effective_activity_mbq act ti s2 tr res = Inr a2 \<and>
      (s1 \<le> s2 \<longrightarrow> a2 \<le> a1) \<and>
      (ti \<le> s1 \<and> s1 < s2 \<and> res < act \<longrightarrow> a2 < a1)"
    unfolding effective_activity_value using weak strict by blast
  show "effective_activity_mbq act ti ti tr res = Inr (max (act - res) 0)"
    unfolding effective_activity_value by (simp add: total_seconds_def)
  assume "s < ti"
  then have "?dt s = 0" by (simp add: minutes_clamped)
  then show "effective_activity_mbq act ti s tr res = Inr (max (act - res) 0)"
    unfolding effective_activity_value by simp
qed

text \<open>C5 at 280 MBq, one hour after injection and one minute before it.\<close>

theorem effective_activity_decay_witness:
  "(0::int) \<le> 3600000000 \<and> (0::int) \<le> 0 \<and> (0::int) < 3600000000 \<and> (0::real) < 280 \<and>
   (-60000000::int) < 0 \<and>
   (\<exists>a1 a2.
      effective_activity_mbq 280 0 0 ''FDG'' 0 = Inr a1 \<and>
      effective_activity_mbq 280 0 3600000000 ''FDG'' 0 = Inr a2 \<and> a2 \<le> a1 \<and> a2 < a1) \<and>
   effective_activity_mbq 280 0 (-60000000) ''FDG'' 0 = Inr (max (280 - 0) 0)"
proof -
  have h: "(0::int) \<le> 3600000000 \<and> (0::int) \<le> 0 \<and> (0::int) < 3600000000 \<and> (0::real) < 280 \<and>
   (-60000000::int) < 0" by simp
  from effective_activity_decay[where act=280 and ti=0 and ?s1.0=0 and ?s2.0=3600000000
      and tr="''FDG''" and res=0 and s="-60000000"] h
  show ?thesis by blast
qed

subsection \<open>C6: the BMI multiplier\<close>

lemma bmi_multiplier_default:
  "bmi_multiplier bmi tr 22.0 40.0 =
     Inr (if min bmi 40.0 \<le> 22.0 then 1.0
          else (min bmi 40.0 / 22.0) powr (if tracer_key tr = ''FDG'' then 0.6 else 0.4))"
proof -
  have "\<not> min bmi 40.0 / 22.0 < 0" if "\<not> min bmi 40.0 \<le> (22.0::real)"
    using that by simp
  then show ?thesis
    unfolding bmi_multiplier_def Let_def by auto
qed

lemma bmi_factor_mono:
  fixes x y e :: real
  assumes "x \<le> y" and "0 \<le> e"
  shows "(if x \<le> 22.0 then 1.0 else (x / 22.0) powr e)
         \<le> (if y \<le> 22.0 then 1.0 else (y / 22.0) powr e)"
proof (cases "y \<le> 22.0")
  case True
  with assms show ?thesis by simp
next
  case False
  then have y1: "1 \<le> y / 22.0" by simp
  show ?thesis
  proof (cases "x \<le> 22.0")
    case True
    from y1 assms(2) have "1 \<le> (y / 22.0) powr e" by (rule ge_one_powr_ge_zero)
    with True False show ?thesis by simp
  next
    case x: False
    then have "0 \<le> x / 22.0" by simp
    moreover from assms(1) have "x / 22.0 \<le> y / 22.0" by simp
    ultimately have "(x / 22.0) powr e \<le> (y / 22.0) powr e"
      using assms(2) by (simp add: powr_mono2)
    with x False show ?thesis by simp
  qed
qed

lemma bmi_factor_ge_one:
  fixes x e :: real
  assumes "0 \<le> e"
  shows "1 \<le> (if x \<le> 22.0 then 1.0 else (x / 22.0) powr e)"
proof (cases "x \<le> 22.0")
  case True
  then show ?thesis by simp
next
  case False
  then have "1 \<le> x / 22.0" by simp
  from this assms have "1 \<le> (x / 22.0) powr e" by (rule ge_one_powr_ge_zero)
  with False show ?thesis by simp
qed

text \<open>
  C6: with the reference BMI 22 and the cap 40, \<open>bmi_multiplier\<close> always returns a
  factor of at least 1.0; the factor is exactly 1.0 for every BMI up to 22, it never
  decreases when the BMI grows, and for every BMI from 40 on it is the factor of 40.
\<close>

theorem bmi_multiplier_shape:
  "(bmi \<le> 22 \<longrightarrow> bmi_multiplier bmi tr 22.0 40.0 = Inr 1.0) \<and>
   (\<exists>f. bmi_multiplier bmi tr 22.0 40.0 = Inr f \<and> 1.0 \<le> f) \<and>
   (b1 \<le> b2 \<longrightarrow>
      (\<exists>f1 f2. bmi_multiplier b1 tr 22.0 40.0 = Inr f1 \<and>
               bmi_multiplier b2 tr 22.0 40.0 = Inr f2 \<and> f1 \<le> f2)) \<and>
   (40 \<le> bmi \<longrightarrow> bmi_multiplier bmi tr 22.0 40.0 = bmi_multiplier 40 tr 22.0 40.0)"
proof (intro conjI impI)
  let ?e = "if tracer_key tr = ''FDG'' then 0.6 else 0.4 :: real"
  have e: "0 \<le> ?e" by simp
  show "bmi_multiplier bmi tr 22.0 40.0 = Inr 1.0" if "bmi \<le> 22"
    unfolding bmi_multiplier_default using that by simp
  show "\<exists>f. bmi_multiplier bmi tr 22.0 40.0 = Inr f \<and> 1.0 \<le> f"
    unfolding bmi_multiplier_default using bmi_factor_ge_one[OF e, of "min bmi 40.0"] by simp
  show "\<exists>f1 f2. bmi_multiplier b1 tr 22.0 40.0 = Inr f1 \<and>
               bmi_multiplier b2 tr 22.0 40.0 = Inr f2 \<and> f1 \<le> f2" if "b1 \<le> b2"
  proof -
    from that have "min b1 40.0 \<le> min b2 (40.0::real)" by simp
    from bmi_factor_mono[OF this e] show ?thesis
      unfolding bmi_multiplier_default by simp
  qed
  show "bmi_multiplier bmi tr 22.0 40.0 = bmi_multiplier 40 tr 22.0 40.0" if "40 \<le> bmi"
  proof -
    from that have "min bmi 40.0 = min 40 (40.0::real)" by simp
    then show ?thesis unfolding bmi_multiplier_default by (simp only:)
  qed
qed

text \<open>C6 at the BMIs 22, 30, 35 and 45.\<close>

theorem bmi_multiplier_shape_witness:
  "(22::real) \<le> 22 \<and> (30::real) \<le> 35 \<and> (40::real) \<le> 45 \<and>
   bmi_multiplier 22 ''FDG'' 22.0 40.0 = Inr 1.0 \<and>
   (\<exists>f1 f2. bmi_multiplier 30 ''FDG'' 22.0 40.0 = Inr f1 \<and>
            bmi_multiplier 35 ''FDG'' 22.0 40.0 = Inr f2 \<and> f1 \<le> f2) \<and>
   bmi_multiplier 45 ''FDG'' 22.0 40.0 = bmi_multiplier 40 ''FDG'' 22.0 40.0"
proof -
  have h: "(22::real) \<le> 22 \<and> (30::real) \<le> 35 \<and> (40::real) \<le> 45" by simp
  from bmi_multiplier_shape[where bmi=22 and tr="''FDG''" and ?b1.0=30 and ?b2.0=35]
    bmi_multiplier_shape[where bmi=45 and tr="''FDG''" and ?b1.0=30 and ?b2.0=35] h
  show ?thesis by blast
qed

subsection \<open>C7: tracer resolution\<close>

text \<open>
  C7: \<open>tracer_key\<close> returns a value for every label: \<open>PSMA\<close> exactly when some
  substring of the label is \<open>PSMA\<close> up to letter case, and \<open>FDG\<close> for every other
  label; the three labels of the specification resolve as stated.
\<close>

theorem tracer_key_total:
  "tracer_key label =
     (if (\<exists>p m s. label = p @ m @ s \<and> upper m = ''PSMA'') then ''PSMA'' else ''FDG'') \<and>
   tracer_key ''f-18 psma-1007'' = ''PSMA'' \<and>
   tracer_key ''FDG'' = ''FDG'' \<and>
   tracer_key ''unknown'' = ''FDG''"
proof -
  have general: "tracer_key label =
     (if (\<exists>p m s. label = p @ m @ s \<and> upper m = ''PSMA'') then ''PSMA'' else ''FDG'')"
    unfolding tracer_key_def str_contains_sublist upper_sublist ..
  have e1: "tracer_key ''f-18 psma-1007'' = ''PSMA''"
    unfolding tracer_key_def by code_simp
  have e2: "tracer_key ''FDG'' = ''FDG''"
    unfolding tracer_key_def by code_simp
  have e3: "tracer_key ''unknown'' = ''FDG''"
    unfolding tracer_key_def by code_simp
  from general e1 e2 e3 show ?thesis by blast
qed

subsection \<open>C8: persistence failures of the store\<close>

lemma exists_file_returns:
  "\<not> exists_fails f \<Longrightarrow> exists_file f = Inr (content f \<noteq> None)"
  by (simp add: exists_file_def)






lemma load_store_check_raises:
  "exists_file f = Inl e \<Longrightarrow> load_store json_loads f = Inl e"
  by (simp add: load_store_def)

lemma save_store_returns: "fst (save_store json_dumps st f) = Inr ()"
  by (simp add: save_store_def Let_def try_except_def split: sum.splits prod.splits)



lemma add_k_measurement_returns:
  "fst (add_k_measurement json_dumps st tr rp kv f) =
     Inr (st(store_key tr rp \<mapsto> (case st (store_key tr rp) of None \<Rightarrow> [] | Some a \<Rightarrow> a) @ [kv]))"
proof -
  obtain r f' where s: "save_store json_dumps
      (st(store_key tr rp \<mapsto> (case st (store_key tr rp) of None \<Rightarrow> [] | Some a \<Rightarrow> a) @ [kv])) f
      = (r, f')"
    by (cases "save_store json_dumps
      (st(store_key tr rp \<mapsto> (case st (store_key tr rp) of None \<Rightarrow> [] | Some a \<Rightarrow> a) @ [kv])) f")
  with save_store_returns[of json_dumps
      "st(store_key tr rp \<mapsto> (case st (store_key tr rp) of None \<Rightarrow> [] | Some a \<Rightarrow> a) @ [kv])" f]
  have "r = Inr ()" by simp
  with s show ?thesis
    by (simp add: add_k_measurement_def Let_def)
qed



lemma summarize_k_loaded_absent:
  assumes "map_of items (tr @ ''_'' @ rp) = None" and "st (tr @ ''_'' @ rp) = None"
  shows "summarize_k_loaded numpy_other (JObject items) tr rp = Inr (summarize_k st tr rp)"
  using assms
  by (simp add: summarize_k_loaded_def summarize_k_def store_key_def dict_get_def Let_def)





subsection \<open>C9: the summary of the stored measurements\<close>

lemma summarize_k_none:
  "summarize_k st tr rp = None \<longleftrightarrow>
     (st (tr @ ''_'' @ rp) = None \<or> st (tr @ ''_'' @ rp) = Some [])"
  by (simp add: summarize_k_def store_key_def Let_def split: option.splits)

lemma summarize_k_some:
  "st (tr @ ''_'' @ rp) = Some vals \<Longrightarrow> vals \<noteq> [] \<Longrightarrow>
   summarize_k st tr rp =
     Some (np_median vals, np_percentile vals 25, np_percentile vals 75, length vals)"
  by (simp add: summarize_k_def store_key_def Let_def)

lemma single_stats:
  "np_median [x] = x" "np_percentile [x] q = x"
  by (simp_all add: np_median_def np_percentile_def)

lemma summarize_after_first_add:
  assumes "st (tr @ ''_'' @ rp) = None \<or> st (tr @ ''_'' @ rp) = Some []"
  shows "\<exists>st'. fst (add_k_measurement json_dumps st tr rp kv f) = Inr st' \<and>
               summarize_k st' tr rp = Some (kv, kv, kv, 1)"
proof -
  let ?st' = "st(store_key tr rp \<mapsto> (case st (store_key tr rp) of None \<Rightarrow> [] | Some a \<Rightarrow> a) @ [kv])"
  from assms have "?st' (tr @ ''_'' @ rp) = Some [kv]"
    by (auto simp add: store_key_def)
  then have "summarize_k ?st' tr rp = Some (kv, kv, kv, 1)"
    by (simp add: summarize_k_some single_stats)
  with add_k_measurement_returns[of json_dumps st tr rp kv f] show ?thesis by blast
qed

text \<open>
  C9: \<open>summarize_k\<close> returns \<open>None\<close> exactly when the store has no measurement under
  the key \<open>tracer_recon_profile\<close> (the key is absent or holds the empty list);
  otherwise it returns the median, the 25th and the 75th percentile of all the values
  under the key, and their number. After one \<open>add_k_measurement\<close> of 5.0 to a store
  without measurements under the key, the summary is (5.0, 5.0, 5.0, 1).
\<close>

theorem summarize_k_order_statistics:
  "(summarize_k st tr rp = None \<longleftrightarrow>
      (st (tr @ ''_'' @ rp) = None \<or> st (tr @ ''_'' @ rp) = Some [])) \<and>
   (st (tr @ ''_'' @ rp) = Some vals \<and> vals \<noteq> [] \<longrightarrow>
      summarize_k st tr rp =
        Some (np_median vals, np_percentile vals 25, np_percentile vals 75, length vals)) \<and>
   (st (tr @ ''_'' @ rp) = None \<or> st (tr @ ''_'' @ rp) = Some [] \<longrightarrow>
      (\<exists>st'. fst (add_k_measurement json_dumps st tr rp 5.0 f) = Inr st' \<and>
             summarize_k st' tr rp = Some (5.0, 5.0, 5.0, 1)))"
  using summarize_k_none[of st tr rp] summarize_k_some[of st tr rp vals]
    summarize_after_first_add[of st tr rp json_dumps "5.0" f]
  by blast

lemma stats_example:
  "np_median [3, 1, 2] = 2" "np_percentile [3, 1, 2] 25 = 1.5" "np_percentile [3, 1, 2] 75 = 2.5"
  by (simp_all add: np_median_def np_percentile_def)

text \<open>C9 on an empty store, on three stored values and after a first measurement.\<close>

theorem summarize_k_order_statistics_witness:
  "summarize_k Map.empty ''FDG'' ''HD_PET'' = None \<and>
   summarize_k [''FDG_HD_PET'' \<mapsto> [3, 1, 2]] ''FDG'' ''HD_PET'' = Some (2, 1.5, 2.5, 3) \<and>
   (\<exists>st'. fst (add_k_measurement (\<lambda>_. Inr ''{}'') Map.empty ''FDG'' ''HD_PET'' 5.0
                  \<lparr>content = None, exists_fails = False, read_fails = False, write_fails = False\<rparr>) = Inr st' \<and>
          summarize_k st' ''FDG'' ''HD_PET'' = Some (5.0, 5.0, 5.0, 1))"
  using
    summarize_k_order_statistics[where st=Map.empty and tr="''FDG''" and rp="''HD_PET''"
      and json_dumps="\<lambda>_. Inr ''{}''"
      and f="\<lparr>content = None, exists_fails = False, read_fails = False, write_fails = False\<rparr>"]
    summarize_k_order_statistics[where st="[''FDG_HD_PET'' \<mapsto> [3, 1, 2]]" and tr="''FDG''"
      and rp="''HD_PET''" and vals="[3, 1, 2]"]
  by (simp add: stats_example)

subsection \<open>C10: the pediatric flag without a weight\<close>

text \<open>
  C10: with \<open>is_pediatric\<close> true and no weight, the standard solver and the fast
  solver return exactly what they return for an adult call (flag false, any weight):
  no scan-time ceiling, no dose-factor reduction and no half-ceiling cap are applied.
\<close>

theorem pediatric_flag_without_weight:
  "solve_standard A k rg s m r t True None ho = solve_standard A k rg s m r t False w ho \<and>
   solve_fast A k rg m ft r t True None ho = solve_fast A k rg m ft r t False w ho"
proof
  show "solve_standard A k rg s m r t True None ho = solve_standard A k rg s m r t False w ho"
    by (simp only: solve_standard_def prod.case bool.case option.case)
  show "solve_fast A k rg m ft r t True None ho = solve_fast A k rg m ft r t False w ho"
    by (simp only: solve_fast_def prod.case bool.case option.case)
qed

end
